theory Spec2Isabelle
  imports Main "HOL-Library.Multiset"
begin

section \<open>The cursor pose tracking system\<close>

text \<open>
  The program is the class \<open>CursorPoseTrackingSystem\<close> of
  \<^verbatim>\<open>src/systems/cursor-pose-tracking.js\<close>:
  \<^verbatim>\<open>
  constructor() { this.pairs = []; }
  register(object3D, path) { this.pairs.push({ object3D, path }); }
  unregister(object3D) { this.pairs = this.pairs.filter(p => p.object3D !== object3D); }
  tick() {
    for (let i = 0; i < this.pairs.length; i++) {
      const matrix = AFRAME.scenes[0].systems.userinput.get(this.pairs[i].path);
      if (matrix) {
        const o = this.pairs[i].object3D;
        o.matrix.copy(matrix);
        o.matrix.decompose(o.position, o.quaternion, o.scale);
        o.matrixIsModified = true;
        o.matrixWorldNeedsUpdate = true;
      }
    }
  }
  \<close>
\<close>

subsection \<open>Data\<close>

text \<open>
  A scene node is a JavaScript object, so the registry holds references. A reference is
  an address (a natural number) into a store of nodes; the operator \<open>!==\<close> on two
  objects compares their addresses, never their fields. Every address holds a node: a
  JavaScript reference cannot dangle, and the value registered is a scene node.

  The fields of a node are the ones \<open>tick\<close> writes. The matrix type \<open>'m\<close>, the vector
  type \<open>'v\<close> and the quaternion type \<open>'q\<close> are left open: \<open>tick\<close> copies a matrix and
  hands it to the scene library's \<open>decompose\<close>, and computes nothing on the numbers
  itself.
\<close>

record ('m, 'v, 'q) Object3D =
  matrix :: 'm
  position :: 'v
  quaternion :: 'q
  scale :: 'v
  matrixIsModified :: bool
  matrixWorldNeedsUpdate :: bool

text \<open>One entry of \<open>this.pairs\<close>: the object literal \<open>{ object3D, path }\<close>.\<close>

record pair =
  object3D :: nat
  path :: string

text \<open>
  The system itself has the single field \<open>pairs\<close>. The world around it adds the store of
  scene nodes and the state \<open>ext\<close> of the host application (whatever the input provider
  keeps between calls).
\<close>

record system =
  pairs :: "pair list"

record ('m, 'v, 'q, 's) world = system +
  heap :: "nat \<Rightarrow> ('m, 'v, 'q) Object3D"
  ext :: 's

datatype error = TypeError

subsection \<open>The registry\<close>

definition constructor :: system where
  "constructor = \<lparr>pairs = []\<rparr>"

definition register :: "nat \<Rightarrow> string \<Rightarrow> 'a system_scheme \<Rightarrow> 'a system_scheme" where
  "register o3D p this = this\<lparr>pairs := pairs this @ [\<lparr>object3D = o3D, path = p\<rparr>]\<rparr>"

definition unregister :: "nat \<Rightarrow> 'a system_scheme \<Rightarrow> 'a system_scheme" where
  "unregister o3D this = this\<lparr>pairs := filter (\<lambda>p. object3D p \<noteq> o3D) (pairs this)\<rparr>"

subsection \<open>The sweep\<close>

text \<open>
  \<open>o.matrix.copy(matrix)\<close> overwrites the node's matrix with the provider's;
  \<open>o.matrix.decompose(o.position, o.quaternion, o.scale)\<close> then reads the node's matrix
  and writes the three components. The decomposition is the scene library's, a function
  of the matrix alone; it is the parameter \<open>decompose\<close>, returning translation, rotation
  and scale. The position, quaternion and scale objects are the node's own, as the scene
  library creates them with the node, so they are fields of the node here. The two flags
  are set last.
\<close>

definition write_pose ::
  "('m \<Rightarrow> 'v \<times> 'q \<times> 'v) \<Rightarrow> 'm \<Rightarrow> ('m, 'v, 'q) Object3D \<Rightarrow> ('m, 'v, 'q) Object3D" where
  "write_pose decompose m o3D =
     (let o1 = o3D\<lparr>matrix := m\<rparr>;
          (t, r, s) = decompose (matrix o1);
          o2 = o1\<lparr>position := t, quaternion := r, scale := s\<rparr>;
          o3 = o2\<lparr>matrixIsModified := True\<rparr>
      in o3\<lparr>matrixWorldNeedsUpdate := True\<rparr>)"

definition apply_pose ::
  "('m \<Rightarrow> 'v \<times> 'q \<times> 'v) \<Rightarrow> 'm \<Rightarrow> nat \<Rightarrow> ('m, 'v, 'q, 's) world \<Rightarrow> ('m, 'v, 'q, 's) world" where
  "apply_pose decompose m a w = w\<lparr>heap := (heap w)(a := write_pose decompose m (heap w a))\<rparr>"

text \<open>
  The input provider is reached through \<open>AFRAME.scenes[0].systems.userinput\<close>. When the
  scene or its input system is not there yet, that member access throws a \<open>TypeError\<close>;
  this is the provider \<open>None\<close>. Otherwise the provider is its method \<open>get\<close>: host code,
  which answers with a matrix or with nothing (\<open>if (matrix)\<close> takes every falsy answer
  as nothing), and which, being arbitrary JavaScript, may change the world while it runs,
  the registry included.
\<close>

type_synonym ('m, 'v, 'q, 's) userinput =
  "string \<Rightarrow> ('m, 'v, 'q, 's) world \<Rightarrow> 'm option \<times> ('m, 'v, 'q, 's) world"

text \<open>
  The loop reads \<open>this.pairs\<close> afresh in its test, in the argument of \<open>get\<close> and, after
  \<open>get\<close> has returned, in \<open>this.pairs[i].object3D\<close>; when the registry has shrunk
  meanwhile, \<open>this.pairs[i]\<close> is \<open>undefined\<close> and reading its field throws. The result
  is the exception thrown, if any, with the world as it stands then; a sweep that never
  ends has the result \<open>None\<close>.
\<close>

partial_function (option) tick_loop ::
  "('m \<Rightarrow> 'v \<times> 'q \<times> 'v) \<Rightarrow> ('m, 'v, 'q, 's) userinput option \<Rightarrow> nat \<Rightarrow>
     ('m, 'v, 'q, 's) world \<Rightarrow> (error option \<times> ('m, 'v, 'q, 's) world) option" where
  "tick_loop decompose userinput i w =
     (if i < length (pairs w) then
        (case userinput of
           None \<Rightarrow> Some (Some TypeError, w)
         | Some get \<Rightarrow>
             (case get (path (pairs w ! i)) w of
                (None, w1) \<Rightarrow> tick_loop decompose userinput (i + 1) w1
              | (Some m, w1) \<Rightarrow>
                  if i < length (pairs w1) then
                    tick_loop decompose userinput (i + 1)
                      (apply_pose decompose m (object3D (pairs w1 ! i)) w1)
                  else Some (Some TypeError, w1)))
      else Some (None, w))"

definition tick ::
  "('m \<Rightarrow> 'v \<times> 'q \<times> 'v) \<Rightarrow> ('m, 'v, 'q, 's) userinput option \<Rightarrow>
     ('m, 'v, 'q, 's) world \<Rightarrow> (error option \<times> ('m, 'v, 'q, 's) world) option" where
  "tick decompose userinput w = tick_loop decompose userinput 0 w"

text \<open>A provider that maps each source to a fixed answer and touches nothing.\<close>

definition provider :: "(string \<Rightarrow> 'm option) \<Rightarrow> ('m, 'v, 'q, 's) userinput" where
  "provider f = (\<lambda>p w. (f p, w))"

text \<open>
  The body of the loop run over a given list of links, rather than over \<open>this.pairs\<close> as
  it stands at each iteration. Over a fixed list the sweep always ends, and
  \<open>this.pairs[i]\<close> is never missing.
\<close>

fun sweep ::
  "('m \<Rightarrow> 'v \<times> 'q \<times> 'v) \<Rightarrow> ('m, 'v, 'q, 's) userinput option \<Rightarrow> pair list \<Rightarrow>
     ('m, 'v, 'q, 's) world \<Rightarrow> error option \<times> ('m, 'v, 'q, 's) world" where
  "sweep decompose userinput [] w = (None, w)"
| "sweep decompose userinput (l # ls) w =
     (case userinput of
        None \<Rightarrow> (Some TypeError, w)
      | Some get \<Rightarrow>
          (case get (path l) w of
             (None, w1) \<Rightarrow> sweep decompose userinput ls w1
           | (Some m, w1) \<Rightarrow>
               sweep decompose userinput ls (apply_pose decompose m (object3D l) w1)))"

text \<open>
  The sweep as the specification words it (section 5): \<open>tick()\<close> operates over a stable
  snapshot of the registry taken at the start of the sweep. This definition follows the
  specification, not the source; it is what \<open>tick\<close> is compared with.
\<close>

definition tick_snapshot ::
  "('m \<Rightarrow> 'v \<times> 'q \<times> 'v) \<Rightarrow> ('m, 'v, 'q, 's) userinput option \<Rightarrow>
     ('m, 'v, 'q, 's) world \<Rightarrow> error option \<times> ('m, 'v, 'q, 's) world" where
  "tick_snapshot decompose userinput w = sweep decompose userinput (pairs w) w"

text \<open>
  What it means that no call of the provider made during the sweep changes the registry:
  the calls are followed in order, each in the world the sweep has reached, and after
  each one the registry is the one before it. Calls the sweep does not make are not
  looked at.
\<close>

fun registry_kept ::
  "('m \<Rightarrow> 'v \<times> 'q \<times> 'v) \<Rightarrow> ('m, 'v, 'q, 's) userinput \<Rightarrow> pair list \<Rightarrow>
     ('m, 'v, 'q, 's) world \<Rightarrow> bool" where
  "registry_kept decompose get [] w = True"
| "registry_kept decompose get (l # ls) w =
     (case get (path l) w of
        (None, w1) \<Rightarrow> pairs w1 = pairs w \<and> registry_kept decompose get ls w1
      | (Some m, w1) \<Rightarrow>
          pairs w1 = pairs w \<and>
          registry_kept decompose get ls (apply_pose decompose m (object3D l) w1))"

subsection \<open>A scene to run the system on\<close>

text \<open>
  The examples use matrices of sixteen integers in the scene library's column-major
  order, and only matrices that translate and scale along the axes. On those the
  decomposition is read off the entries: the translation is entries 12 to 14, the scale
  the diagonal, the rotation the identity quaternion.
\<close>

definition translation :: "int \<Rightarrow> int \<Rightarrow> int \<Rightarrow> int list" where
  "translation x y z = [1, 0, 0, 0, 0, 1, 0, 0, 0, 0, 1, 0, x, y, z, 1]"

definition decompose_axis :: "int list \<Rightarrow> int list \<times> int list \<times> int list" where
  "decompose_axis m = ([m ! 12, m ! 13, m ! 14], [0, 0, 0, 1], [m ! 0, m ! 5, m ! 10])"

definition idle_node :: "(int list, int list, int list) Object3D" where
  "idle_node = \<lparr>matrix = translation 0 0 0, position = [0, 0, 0], quaternion = [0, 0, 0, 1],
     scale = [1, 1, 1], matrixIsModified = False, matrixWorldNeedsUpdate = False\<rparr>"

text \<open>A scene of untouched nodes, all with the same field values, and an empty registry.\<close>

definition scene :: "(int list, int list, int list, unit) world" where
  "scene = \<lparr>pairs = [], heap = (\<lambda>a. idle_node), ext = ()\<rparr>"

text \<open>A provider that tracks two hands and nothing else.\<close>

definition two_hands :: "string \<Rightarrow> int list option" where
  "two_hands p =
     (if p = ''left'' then Some (translation 1 2 3)
      else if p = ''right'' then Some (translation 4 5 6)
      else None)"

text \<open>
  A provider whose \<open>get\<close> registers the cursor of the right hand (node 1) while it
  answers for the left hand.
\<close>

definition registering_input :: "(int list, int list, int list, unit) userinput" where
  "registering_input p w =
     (if p = ''left'' then (Some (translation 1 2 3), register 1 ''right'' w)
      else (Some (translation 4 5 6), w))"

section \<open>Facts about the sweep\<close>

lemma pairs_apply_pose [simp]: "pairs (apply_pose d m a w) = pairs w"
  by (simp add: apply_pose_def)

lemma heap_apply_pose: "heap (apply_pose d m a w) = (heap w)(a := write_pose d m (heap w a))"
  by (simp add: apply_pose_def)

text \<open>Every field of the node that the model has is overwritten.\<close>

lemma write_pose_eq:
  "write_pose d m x = \<lparr>matrix = m, position = fst (d m), quaternion = fst (snd (d m)),
     scale = snd (snd (d m)), matrixIsModified = True, matrixWorldNeedsUpdate = True\<rparr>"
  by (cases x) (simp add: write_pose_def split: prod.splits)

subsection \<open>One iteration of the loop\<close>

lemma tick_loop_done: "\<not> i < length (pairs w) \<Longrightarrow> tick_loop d u i w = Some (None, w)"
  by (subst tick_loop.simps) simp

lemma tick_loop_unavailable:
  "i < length (pairs w) \<Longrightarrow> tick_loop d None i w = Some (Some TypeError, w)"
  by (subst tick_loop.simps) simp

lemma tick_loop_absent:
  "i < length (pairs w) \<Longrightarrow> get (path (pairs w ! i)) w = (None, w1) \<Longrightarrow>
   tick_loop d (Some get) i w = tick_loop d (Some get) (Suc i) w1"
  by (subst tick_loop.simps) simp

lemma tick_loop_present:
  "i < length (pairs w) \<Longrightarrow> get (path (pairs w ! i)) w = (Some m, w1) \<Longrightarrow>
   i < length (pairs w1) \<Longrightarrow>
   tick_loop d (Some get) i w =
     tick_loop d (Some get) (Suc i) (apply_pose d m (object3D (pairs w1 ! i)) w1)"
  by (subst tick_loop.simps) simp

subsection \<open>The loop when the provider leaves the registry alone\<close>

lemma tick_loop_stable:
  assumes stable: "\<And>p v. pairs (snd (get p v)) = pairs v"
  shows "tick_loop d (Some get) i w = Some (sweep d (Some get) (drop i (pairs w)) w)"
proof (induction "length (pairs w) - i" arbitrary: i w)
  case 0
  then have "\<not> i < length (pairs w)" by simp
  then show ?case by (simp add: tick_loop_done)
next
  case (Suc n)
  then have lt: "i < length (pairs w)" by simp
  obtain r w1 where g: "get (path (pairs w ! i)) w = (r, w1)"
    by (cases "get (path (pairs w ! i)) w") simp
  have p1: "pairs w1 = pairs w"
    using stable [of "path (pairs w ! i)" w] g by simp
  have dr: "drop i (pairs w) = pairs w ! i # drop (Suc i) (pairs w)"
    using lt by (simp add: Cons_nth_drop_Suc)
  have n: "n = length (pairs w) - Suc i" using Suc.hyps(2) by simp
  show ?case
  proof (cases r)
    case None
    have "tick_loop d (Some get) i w = tick_loop d (Some get) (Suc i) w1"
      using lt g None by (simp add: tick_loop_absent)
    also have "\<dots> = Some (sweep d (Some get) (drop (Suc i) (pairs w1)) w1)"
      using Suc.hyps(1) [of w1 "Suc i"] n p1 by simp
    finally show ?thesis using g None p1 dr by simp
  next
    case (Some m)
    let ?w2 = "apply_pose d m (object3D (pairs w1 ! i)) w1"
    have "tick_loop d (Some get) i w = tick_loop d (Some get) (Suc i) ?w2"
      using lt g Some p1 by (simp add: tick_loop_present)
    also have "\<dots> = Some (sweep d (Some get) (drop (Suc i) (pairs ?w2)) ?w2)"
      using Suc.hyps(1) [of ?w2 "Suc i"] n p1 by simp
    finally show ?thesis using g Some p1 dr by simp
  qed
qed

lemma tick_stable:
  assumes "\<And>p v. pairs (snd (get p v)) = pairs v"
  shows "tick d (Some get) w = Some (sweep d (Some get) (pairs w) w)"
  using tick_loop_stable [OF assms, where d = d and i = 0 and w = w] by (simp add: tick_def)

lemma tick_provider:
  "tick d (Some (provider f)) w = Some (sweep d (Some (provider f)) (pairs w) w)"
  by (rule tick_stable) (simp add: provider_def)

subsection \<open>The loop when the calls of the sweep leave the registry alone\<close>

lemma tick_loop_kept:
  "registry_kept d get (drop i (pairs w)) w \<Longrightarrow>
   tick_loop d (Some get) i w = Some (sweep d (Some get) (drop i (pairs w)) w)"
proof (induction "length (pairs w) - i" arbitrary: i w)
  case 0
  then have "\<not> i < length (pairs w)" by simp
  then show ?case by (simp add: tick_loop_done)
next
  case (Suc n)
  then have lt: "i < length (pairs w)" by simp
  obtain r w1 where g: "get (path (pairs w ! i)) w = (r, w1)"
    by (cases "get (path (pairs w ! i)) w") simp
  have dr: "drop i (pairs w) = pairs w ! i # drop (Suc i) (pairs w)"
    using lt by (simp add: Cons_nth_drop_Suc)
  have n: "n = length (pairs w) - Suc i" using Suc.hyps(2) by simp
  show ?case
  proof (cases r)
    case None
    have k: "pairs w1 = pairs w \<and> registry_kept d get (drop (Suc i) (pairs w)) w1"
      using Suc.prems g None by (simp add: dr)
    have "tick_loop d (Some get) i w = tick_loop d (Some get) (Suc i) w1"
      using lt g None by (simp add: tick_loop_absent)
    also have "\<dots> = Some (sweep d (Some get) (drop (Suc i) (pairs w1)) w1)"
      using Suc.hyps(1) [of w1 "Suc i"] n k by simp
    finally show ?thesis using g None k dr by simp
  next
    case (Some m)
    let ?w2 = "apply_pose d m (object3D (pairs w1 ! i)) w1"
    have k: "pairs w1 = pairs w \<and>
        registry_kept d get (drop (Suc i) (pairs w)) (apply_pose d m (object3D (pairs w ! i)) w1)"
      using Suc.prems g Some by (simp add: dr)
    have "tick_loop d (Some get) i w = tick_loop d (Some get) (Suc i) ?w2"
      using lt g Some k by (simp add: tick_loop_present)
    also have "\<dots> = Some (sweep d (Some get) (drop (Suc i) (pairs ?w2)) ?w2)"
      using Suc.hyps(1) [of ?w2 "Suc i"] n k by simp
    finally show ?thesis using g Some k dr by simp
  qed
qed

subsection \<open>The sweep under a provider that is a plain map\<close>

lemma sweep_provider_absent:
  "f (path l) = None \<Longrightarrow>
   sweep d (Some (provider f)) (l # ls) w = sweep d (Some (provider f)) ls w"
  by (simp add: provider_def)

lemma sweep_provider_present:
  "f (path l) = Some m \<Longrightarrow>
   sweep d (Some (provider f)) (l # ls) w =
     sweep d (Some (provider f)) ls (apply_pose d m (object3D l) w)"
  by (simp add: provider_def)

lemma sweep_provider_no_error: "fst (sweep d (Some (provider f)) ls w) = None"
proof (induction ls arbitrary: w)
  case Nil
  show ?case by simp
next
  case (Cons l ls)
  show ?case
    by (cases "f (path l)")
      (simp_all add: sweep_provider_absent sweep_provider_present Cons.IH del: sweep.simps)
qed

lemma sweep_provider_append:
  "sweep d (Some (provider f)) (xs @ ys) w =
   sweep d (Some (provider f)) ys (snd (sweep d (Some (provider f)) xs w))"
proof (induction xs arbitrary: w)
  case Nil
  show ?case by simp
next
  case (Cons l ls)
  show ?case
    by (cases "f (path l)")
      (simp_all add: sweep_provider_absent sweep_provider_present Cons.IH del: sweep.simps)
qed

lemma sweep_provider_all_absent:
  "(\<And>l. l \<in> set ls \<Longrightarrow> f (path l) = None) \<Longrightarrow> sweep d (Some (provider f)) ls w = (None, w)"
proof (induction ls arbitrary: w)
  case Nil
  show ?case by simp
next
  case (Cons l ls)
  then show ?case by (simp add: sweep_provider_absent del: sweep.simps)
qed

text \<open>
  Once a node carries the pose of \<open>T\<close>, links that leave it alone or write \<open>T\<close> again
  do not change it.
\<close>

lemma sweep_provider_keeps:
  assumes "heap w a = write_pose d T x"
    and "\<And>l. l \<in> set ls \<Longrightarrow> object3D l = a \<Longrightarrow> f (path l) = None \<or> f (path l) = Some T"
  shows "heap (snd (sweep d (Some (provider f)) ls w)) a = write_pose d T x"
  using assms
proof (induction ls arbitrary: w)
  case Nil
  then show ?case by simp
next
  case (Cons l ls)
  show ?case
  proof (cases "f (path l)")
    case None
    then show ?thesis using Cons by (simp add: sweep_provider_absent del: sweep.simps)
  next
    case (Some m)
    have "heap (apply_pose d m (object3D l) w) a = write_pose d T x"
    proof (cases "object3D l = a")
      case True
      then have "m = T" using Cons.prems(2) [of l] Some by simp
      then show ?thesis using True by (simp add: heap_apply_pose write_pose_eq)
    next
      case False
      then show ?thesis using Cons.prems(1) by (simp add: heap_apply_pose)
    qed
    then show ?thesis using Some Cons by (simp add: sweep_provider_present del: sweep.simps)
  qed
qed

lemma sweep_provider_last:
  assumes "f (path l) = Some T"
    and "\<And>k. k \<in> set ys \<Longrightarrow> object3D k = object3D l \<Longrightarrow>
           f (path k) = None \<or> f (path k) = Some T"
  shows "heap (snd (sweep d (Some (provider f)) (xs @ l # ys) w)) (object3D l) =
           write_pose d T x"
proof -
  let ?w1 = "snd (sweep d (Some (provider f)) xs w)"
  let ?w2 = "apply_pose d T (object3D l) ?w1"
  have "heap ?w2 (object3D l) = write_pose d T x"
    by (simp add: heap_apply_pose write_pose_eq)
  then have "heap (snd (sweep d (Some (provider f)) ys ?w2)) (object3D l) = write_pose d T x"
    using assms(2) by (rule sweep_provider_keeps)
  then show ?thesis
    using assms(1) by (simp add: sweep_provider_append sweep_provider_present del: sweep.simps)
qed



section \<open>The registry operations\<close>

text \<open>
  C8. For every node, source and registry, \<open>register\<close> appends exactly one link, the pair
  of its two arguments as given, at the end of the registry. The registry grows by one,
  and the store of nodes and the host state are as before. The operation checks nothing
  and has no failing outcome.
\<close>

theorem register_appends:
  fixes w :: "('m, 'v, 'q, 's) world"
  shows "pairs (register N s w) = pairs w @ [\<lparr>object3D = N, path = s\<rparr>] \<and>
    length (pairs (register N s w)) = Suc (length (pairs w)) \<and>
    heap (register N s w) = heap w \<and> ext (register N s w) = ext w"
  by (simp add: register_def)

text \<open>
  C4. Whatever the registry holds and whatever the source \<open>s\<close> is, after \<open>register N s\<close>
  followed at once by \<open>unregister N\<close> the number of links that reference \<open>N\<close> is zero.
\<close>

theorem register_unregister_none:
  "length (filter (\<lambda>l. object3D l = N) (pairs (unregister N (register N s w)))) = 0"
  by (simp add: register_def unregister_def)

text \<open>
  C6. \<open>unregister N\<close> removes exactly the links whose node is the reference \<open>N\<close>: no
  link of \<open>N\<close> is left, however many there were, and the links left together with the
  links of \<open>N\<close> are the links there were. When no link references \<open>N\<close> the system is
  unchanged. The comparison is on references: \<open>unregister\<close> is not given the store and
  cannot look at a node's fields. It has no failing outcome.
\<close>

theorem unregister_removes_exactly:
  "filter (\<lambda>l. object3D l = N) (pairs (unregister N w)) = [] \<and>
   mset (pairs (unregister N w)) + mset (filter (\<lambda>l. object3D l = N) (pairs w)) = mset (pairs w) \<and>
   (N \<notin> object3D ` set (pairs w) \<longrightarrow> unregister N w = w)"
proof -
  have a: "filter (\<lambda>l. object3D l = N) (pairs (unregister N w)) = []"
    by (simp add: unregister_def)
  have b: "mset (pairs (unregister N w)) + mset (filter (\<lambda>l. object3D l = N) (pairs w)) = mset (pairs w)"
    by (simp add: unregister_def add.commute)
  have c: "unregister N w = w" if "N \<notin> object3D ` set (pairs w)"
  proof -
    have "filter (\<lambda>p. object3D p \<noteq> N) (pairs w) = pairs w"
      using that by (auto simp: filter_id_conv)
    then show ?thesis by (simp add: unregister_def)
  qed
  show ?thesis using a b c by blast
qed

text \<open>
  In the scene every node has the same field values, so nodes 0 and 1 are equal by value
  and differ only as references: unregistering node 0 leaves the link of node 1, and
  unregistering node 2, which has no link, changes nothing.
\<close>

theorem unregister_removes_exactly_witness:
  "heap (register 1 ''right'' (register 0 ''left'' scene)) 0 =
     heap (register 1 ''right'' (register 0 ''left'' scene)) 1 \<and>
   pairs (unregister 0 (register 1 ''right'' (register 0 ''left'' scene))) =
     [\<lparr>object3D = 1, path = ''right''\<rparr>] \<and>
   2 \<notin> object3D ` set (pairs (register 1 ''right'' (register 0 ''left'' scene))) \<and>
   unregister 2 (register 1 ''right'' (register 0 ''left'' scene)) =
     register 1 ''right'' (register 0 ''left'' scene)"
proof -
  let ?w = "register 1 ''right'' (register 0 ''left'' scene)"
  have h: "2 \<notin> object3D ` set (pairs ?w)"
    by (simp add: register_def scene_def)
  have "unregister 2 ?w = ?w"
    using unregister_removes_exactly [of 2 ?w] h by blast
  moreover have "heap ?w 0 = heap ?w 1"
    by (simp add: register_def scene_def)
  moreover have "pairs (unregister 0 ?w) = [\<lparr>object3D = 1, path = ''right''\<rparr>]"
    by (simp add: unregister_def register_def scene_def)
  ultimately show ?thesis using h by simp
qed

text \<open>
  C9. \<open>unregister N\<close> leaves the links of every other node as they were: the links whose
  node is not \<open>N\<close>, taken in registry order, are the same list before and after. The
  store of nodes and the host state are untouched.
\<close>

theorem unregister_keeps_others:
  fixes w :: "('m, 'v, 'q, 's) world"
  shows "filter (\<lambda>l. object3D l \<noteq> N) (pairs (unregister N w)) =
      filter (\<lambda>l. object3D l \<noteq> N) (pairs w) \<and>
    heap (unregister N w) = heap w \<and> ext (unregister N w) = ext w"
  by (simp add: unregister_def)

text \<open>
  C10. \<open>unregister\<close> is idempotent: unregistering \<open>N\<close> a second time leaves the system
  as the first call left it.
\<close>

theorem unregister_idempotent: "unregister N (unregister N w) = unregister N w"
  by (simp add: unregister_def)

section \<open>The sweep\<close>

text \<open>
  C5. When the provider answers with nothing for every source, \<open>tick\<close> ends without an
  exception and the world after it is the world before it: no field of any node has
  changed, and neither has anything else.
\<close>

theorem tick_all_absent: "tick d (Some (provider (\<lambda>p. None))) w = Some (None, w)"
  by (simp add: tick_provider sweep_provider_all_absent)

theorem tick_all_absent_witness:
  "tick decompose_axis (Some (provider (\<lambda>p. None))) (register 0 ''left'' scene) =
     Some (None, register 0 ''left'' scene) \<and>
   heap (register 0 ''left'' scene) 0 = idle_node"
  using tick_all_absent [of decompose_axis "register 0 ''left'' scene"]
  by (simp add: register_def scene_def)

text \<open>
  C2, as stated, fails. With one link registered and the provider not reachable,
  \<open>tick\<close> throws a \<open>TypeError\<close>, whereas under a provider that answers with nothing
  for every source it ends normally.
\<close>

theorem tick_unavailable_counterexample:
  "tick decompose_axis None (register 0 ''left'' scene) =
     Some (Some TypeError, register 0 ''left'' scene) \<and>
   tick decompose_axis (Some (provider (\<lambda>p. None))) (register 0 ''left'' scene) =
     Some (None, register 0 ''left'' scene)"
proof -
  have "0 < length (pairs (register 0 ''left'' scene))"
    by (simp add: register_def scene_def)
  then have "tick decompose_axis None (register 0 ''left'' scene) =
      Some (Some TypeError, register 0 ''left'' scene)"
    unfolding tick_def by (rule tick_loop_unavailable)
  moreover have "tick decompose_axis (Some (provider (\<lambda>p. None))) (register 0 ''left'' scene) =
      Some (None, register 0 ''left'' scene)"
    by (simp add: tick_provider sweep_provider_all_absent)
  ultimately show ?thesis by simp
qed

text \<open>
  C2, amended. When the provider is not reachable, \<open>tick\<close> changes nothing, no node
  included; it ends normally when the registry is empty and throws a \<open>TypeError\<close> at
  the first link otherwise.
\<close>

theorem tick_unavailable:
  "tick d None w = Some (if pairs w = [] then None else Some TypeError, w)"
proof (cases "pairs w = []")
  case True
  then show ?thesis by (simp add: tick_def tick_loop_done)
next
  case False
  then show ?thesis by (simp add: tick_def tick_loop_unavailable)
qed

text \<open>
  C1, as stated, fails. Node 0 is linked to the left hand and then to the right hand; the
  provider maps the left hand to the translation by (1, 2, 3). After \<open>tick\<close> the matrix
  of node 0 is the right hand's, not the left hand's.
\<close>

theorem tick_every_link_counterexample:
  "\<lparr>object3D = 0, path = ''left''\<rparr> \<in> set (pairs (register 0 ''right'' (register 0 ''left'' scene))) \<and>
   two_hands ''left'' = Some (translation 1 2 3) \<and>
   tick decompose_axis (Some (provider two_hands)) (register 0 ''right'' (register 0 ''left'' scene)) =
     Some (None, apply_pose decompose_axis (translation 4 5 6) 0
             (apply_pose decompose_axis (translation 1 2 3) 0
                (register 0 ''right'' (register 0 ''left'' scene)))) \<and>
   matrix (heap (apply_pose decompose_axis (translation 4 5 6) 0
             (apply_pose decompose_axis (translation 1 2 3) 0
                (register 0 ''right'' (register 0 ''left'' scene)))) 0) \<noteq> translation 1 2 3"
proof -
  let ?w = "register 0 ''right'' (register 0 ''left'' scene)"
  have p: "pairs ?w = [\<lparr>object3D = 0, path = ''left''\<rparr>, \<lparr>object3D = 0, path = ''right''\<rparr>]"
    by (simp add: register_def scene_def)
  have "tick decompose_axis (Some (provider two_hands)) ?w =
      Some (sweep decompose_axis (Some (provider two_hands)) (pairs ?w) ?w)"
    by (rule tick_provider)
  also have "\<dots> = Some (None, apply_pose decompose_axis (translation 4 5 6) 0
      (apply_pose decompose_axis (translation 1 2 3) 0 ?w))"
    unfolding p by (simp add: provider_def two_hands_def)
  finally have t: "tick decompose_axis (Some (provider two_hands)) ?w =
      Some (None, apply_pose decompose_axis (translation 4 5 6) 0
        (apply_pose decompose_axis (translation 1 2 3) 0 ?w))" .
  have m: "matrix (heap (apply_pose decompose_axis (translation 4 5 6) 0
      (apply_pose decompose_axis (translation 1 2 3) 0 ?w)) 0) \<noteq> translation 1 2 3"
    by (simp add: heap_apply_pose write_pose_eq translation_def)
  show ?thesis using t m p by (simp add: two_hands_def)
qed

text \<open>
  C1, amended. Take a registered link \<open>l\<close> whose source the provider maps to a transform
  \<open>T\<close>, such that every link registered after \<open>l\<close> for the same node has a source the
  provider maps to nothing or to \<open>T\<close> again. Then \<open>tick\<close> ends without an exception,
  and after it the node of \<open>l\<close> has the matrix \<open>T\<close>, its translation, rotation and scale
  are the decomposition of \<open>T\<close>, and both flags are set.
\<close>

theorem tick_applies_last_transform:
  assumes "pairs w = xs @ l # ys"
    and "f (path l) = Some T"
    and "\<forall>k \<in> set ys. object3D k = object3D l \<longrightarrow> f (path k) = None \<or> f (path k) = Some T"
  shows "\<exists>w'. tick d (Some (provider f)) w = Some (None, w') \<and>
           matrix (heap w' (object3D l)) = T \<and>
           (position (heap w' (object3D l)), quaternion (heap w' (object3D l)),
              scale (heap w' (object3D l))) = d T \<and>
           matrixIsModified (heap w' (object3D l)) \<and>
           matrixWorldNeedsUpdate (heap w' (object3D l))"
proof -
  let ?r = "sweep d (Some (provider f)) (pairs w) w"
  have t: "tick d (Some (provider f)) w = Some (None, snd ?r)"
    using sweep_provider_no_error [of d f "pairs w" w]
    by (simp add: tick_provider prod_eq_iff)
  have "heap (snd ?r) (object3D l) = write_pose d T (heap w (object3D l))"
    unfolding assms(1) using assms(2,3) by (intro sweep_provider_last) auto
  then have "heap (snd ?r) (object3D l) =
      \<lparr>matrix = T, position = fst (d T), quaternion = fst (snd (d T)),
       scale = snd (snd (d T)), matrixIsModified = True, matrixWorldNeedsUpdate = True\<rparr>"
    by (simp add: write_pose_eq)
  then show ?thesis using t by simp
qed

theorem tick_applies_last_transform_witness:
  "pairs (register 0 ''gone'' (register 0 ''left'' (register 1 ''right'' scene))) =
     [\<lparr>object3D = 1, path = ''right''\<rparr>] @ \<lparr>object3D = 0, path = ''left''\<rparr> #
       [\<lparr>object3D = 0, path = ''gone''\<rparr>] \<and>
   two_hands ''left'' = Some (translation 1 2 3) \<and>
   two_hands ''gone'' = None \<and>
   (\<exists>w'. tick decompose_axis (Some (provider two_hands))
            (register 0 ''gone'' (register 0 ''left'' (register 1 ''right'' scene))) = Some (None, w') \<and>
          matrix (heap w' 0) = translation 1 2 3 \<and>
          (position (heap w' 0), quaternion (heap w' 0), scale (heap w' 0)) =
             ([1, 2, 3], [0, 0, 0, 1], [1, 1, 1]) \<and>
          matrixIsModified (heap w' 0) \<and> matrixWorldNeedsUpdate (heap w' 0))"
proof -
  let ?w = "register 0 ''gone'' (register 0 ''left'' (register 1 ''right'' scene))"
  let ?l = "\<lparr>object3D = 0, path = ''left''\<rparr>"
  let ?ys = "[\<lparr>object3D = 0, path = ''gone''\<rparr>]"
  have h1: "pairs ?w = [\<lparr>object3D = 1, path = ''right''\<rparr>] @ ?l # ?ys"
    by (simp add: register_def scene_def)
  have h2: "two_hands (path ?l) = Some (translation 1 2 3)"
    by (simp add: two_hands_def)
  have h3: "\<forall>k \<in> set ?ys. object3D k = object3D ?l \<longrightarrow>
      two_hands (path k) = None \<or> two_hands (path k) = Some (translation 1 2 3)"
    by (simp add: two_hands_def)
  have h4: "two_hands ''gone'' = None"
    by (simp add: two_hands_def)
  have d: "decompose_axis (translation 1 2 3) = ([1, 2, 3], [0, 0, 0, 1], [1, 1, 1])"
    by (simp add: decompose_axis_def translation_def)
  show ?thesis
    using tick_applies_last_transform [OF h1 h2 h3, of decompose_axis] h1 h2 h4 d by simp
qed



text \<open>
  C3, as stated, fails. One link is registered, for node 0. While it answers for that
  link the provider registers a link for node 1. The sweep of the source goes on to the
  new link and writes a pose to node 1 in the same \<open>tick\<close>; a sweep over the snapshot
  taken at the start leaves node 1 untouched until the next one.
\<close>

theorem tick_snapshot_counterexample:
  "tick decompose_axis (Some registering_input) (register 0 ''left'' scene) =
     Some (None, apply_pose decompose_axis (translation 4 5 6) 1
             (apply_pose decompose_axis (translation 1 2 3) 0
                (register 1 ''right'' (register 0 ''left'' scene)))) \<and>
   tick_snapshot decompose_axis (Some registering_input) (register 0 ''left'' scene) =
     (None, apply_pose decompose_axis (translation 1 2 3) 0
              (register 1 ''right'' (register 0 ''left'' scene))) \<and>
   matrixIsModified (heap (apply_pose decompose_axis (translation 4 5 6) 1
             (apply_pose decompose_axis (translation 1 2 3) 0
                (register 1 ''right'' (register 0 ''left'' scene)))) 1) \<and>
   \<not> matrixIsModified (heap (apply_pose decompose_axis (translation 1 2 3) 0
              (register 1 ''right'' (register 0 ''left'' scene))) 1)"
proof -
  let ?u = "Some registering_input"
  let ?w0 = "register 0 ''left'' scene"
  let ?w1 = "register 1 ''right'' ?w0"
  let ?w2 = "apply_pose decompose_axis (translation 1 2 3) 0 ?w1"
  let ?w3 = "apply_pose decompose_axis (translation 4 5 6) 1 ?w2"
  have p0: "pairs ?w0 = [\<lparr>object3D = 0, path = ''left''\<rparr>]"
    by (simp add: register_def scene_def)
  have p1: "pairs ?w1 = [\<lparr>object3D = 0, path = ''left''\<rparr>, \<lparr>object3D = 1, path = ''right''\<rparr>]"
    by (simp add: register_def scene_def)
  have g0: "registering_input (path (pairs ?w0 ! 0)) ?w0 = (Some (translation 1 2 3), ?w1)"
    by (simp add: register_def scene_def registering_input_def)
  have g1: "registering_input (path (pairs ?w2 ! Suc 0)) ?w2 = (Some (translation 4 5 6), ?w2)"
    by (simp add: register_def scene_def registering_input_def)
  have "tick_loop decompose_axis ?u 0 ?w0 =
      tick_loop decompose_axis ?u (Suc 0)
        (apply_pose decompose_axis (translation 1 2 3) (object3D (pairs ?w1 ! 0)) ?w1)"
    using g0 by (rule tick_loop_present [rotated]) (simp_all add: register_def scene_def)
  then have s0: "tick_loop decompose_axis ?u 0 ?w0 = tick_loop decompose_axis ?u (Suc 0) ?w2"
    by (simp add: register_def scene_def)
  have "tick_loop decompose_axis ?u (Suc 0) ?w2 =
      tick_loop decompose_axis ?u (Suc (Suc 0))
        (apply_pose decompose_axis (translation 4 5 6) (object3D (pairs ?w2 ! Suc 0)) ?w2)"
    using g1 by (rule tick_loop_present [rotated]) (simp_all add: register_def scene_def)
  then have s1: "tick_loop decompose_axis ?u (Suc 0) ?w2 =
      tick_loop decompose_axis ?u (Suc (Suc 0)) ?w3"
    by (simp add: register_def scene_def)
  have s2: "tick_loop decompose_axis ?u (Suc (Suc 0)) ?w3 = Some (None, ?w3)"
    by (rule tick_loop_done) (simp add: register_def scene_def)
  have t: "tick decompose_axis ?u ?w0 = Some (None, ?w3)"
    unfolding tick_def by (rule trans [OF s0 trans [OF s1 s2]])
  have n: "tick_snapshot decompose_axis ?u ?w0 = (None, ?w2)"
    by (simp add: tick_snapshot_def p0 registering_input_def)
  have a: "matrixIsModified (heap ?w3 1)"
    by (simp add: heap_apply_pose write_pose_eq)
  have b: "\<not> matrixIsModified (heap ?w2 1)"
    by (simp add: heap_apply_pose register_def scene_def idle_node_def)
  show ?thesis using t n a b by simp
qed

text \<open>
  C3, amended. \<open>tick\<close> takes no snapshot: it reads the registry as it stands at every
  iteration. When no call of the provider made during the sweep changes the registry,
  \<open>tick\<close> ends and does what the sweep over the registry as it was at the start does:
  it processes exactly the links that were there, in order.
\<close>

theorem tick_live_registry:
  assumes "registry_kept d get (pairs w) w"
  shows "tick d (Some get) w = Some (tick_snapshot d (Some get) w)"
  using tick_loop_kept [of d get 0 w] assms by (simp add: tick_def tick_snapshot_def)

text \<open>
  The provider that registers a link while it answers for the left hand, swept over a
  registry that holds the right hand only: the call that would change the registry is
  not made during this sweep, and the sweep is the one over the snapshot.
\<close>

theorem tick_live_registry_witness:
  "registry_kept decompose_axis registering_input
      (pairs (register 1 ''right'' scene)) (register 1 ''right'' scene) \<and>
   registering_input ''left'' (register 1 ''right'' scene) =
     (Some (translation 1 2 3), register 1 ''right'' (register 1 ''right'' scene)) \<and>
   tick decompose_axis (Some registering_input) (register 1 ''right'' scene) =
     Some (tick_snapshot decompose_axis (Some registering_input) (register 1 ''right'' scene)) \<and>
   tick_snapshot decompose_axis (Some registering_input) (register 1 ''right'' scene) =
     (None, apply_pose decompose_axis (translation 4 5 6) 1 (register 1 ''right'' scene))"
proof -
  let ?w = "register 1 ''right'' scene"
  have h: "registry_kept decompose_axis registering_input (pairs ?w) ?w"
    by (simp add: register_def scene_def registering_input_def)
  have c: "registering_input ''left'' ?w = (Some (translation 1 2 3), register 1 ''right'' ?w)"
    by (simp add: registering_input_def)
  have t: "tick decompose_axis (Some registering_input) ?w =
      Some (tick_snapshot decompose_axis (Some registering_input) ?w)"
    using h by (rule tick_live_registry)
  have n: "tick_snapshot decompose_axis (Some registering_input) ?w =
      (None, apply_pose decompose_axis (translation 4 5 6) 1 ?w)"
    by (simp add: tick_snapshot_def register_def scene_def registering_input_def)
  show ?thesis using h c t n by simp
qed

end
